theory Spec2Isabelle
  imports Main "HOL-Library.Word" "HOL-Library.Sublist" "HOL-Library.Multiset"
begin

section \<open>The conversation synchronizer of swift-chat (the \<open>useChat\<close> hook)\<close>

text \<open>
  The development embeds the hook \<open>useChat(currentProfileId, selectedUserId)\<close>: its React
  state becomes a record that every operation takes and returns, and each call that leaves
  the hook (storage upload, table insert, table update, console, the notification callback)
  as well as each \<open>setMessages\<close> is written to an ordered list of effects. What the
  backend answers (upload error, insert error, the rows of a select, clock readings) is an
  argument of the operation. An operation runs without another one interleaving at its
  \<open>await\<close> points.
\<close>

subsection \<open>Strings\<close>

text \<open>
  Identifiers, file names and URLs are ASCII and are modelled as \<open>string\<close>. The text
  of a message is a JavaScript string, a sequence of UTF-16 code units, because
  \<open>String.prototype.trim\<close> is defined on code units: it strips the ECMAScript
  WhiteSpace and LineTerminator characters from both ends.
\<close>

type_synonym code_unit = "16 word"
type_synonym jsstring = "code_unit list"

definition isWhiteSpace :: "code_unit \<Rightarrow> bool" where
  "isWhiteSpace c =
     (c = 0x0009 \<or> c = 0x000A \<or> c = 0x000B \<or> c = 0x000C \<or> c = 0x000D \<or> c = 0x0020
      \<or> c = 0x00A0 \<or> c = 0x1680 \<or> (0x2000 \<le> c \<and> c \<le> 0x200A)
      \<or> c = 0x2028 \<or> c = 0x2029 \<or> c = 0x202F \<or> c = 0x205F \<or> c = 0x3000
      \<or> c = 0xFEFF)"

definition trim :: "jsstring \<Rightarrow> jsstring" where
  "trim s = rev (dropWhile isWhiteSpace (rev (dropWhile isWhiteSpace s)))"

definition utf16 :: "string \<Rightarrow> jsstring" where
  "utf16 s = map (\<lambda>c. of_nat (of_char c)) s"

text \<open>The decimal rendering of a clock reading, as a template literal produces it.\<close>

fun decimal :: "nat \<Rightarrow> string" where
  "decimal n =
     (if n < 10 then [''0123456789'' ! n]
      else decimal (n div 10) @ [''0123456789'' ! (n mod 10)])"

declare decimal.simps [simp del]

text \<open>\<open>s.split(c)\<close> on a string: never the empty array.\<close>

fun split_on :: "char \<Rightarrow> string \<Rightarrow> string list" where
  "split_on c [] = [[]]"
| "split_on c (x # xs) =
     (if x = c then [] # split_on c xs
      else (case split_on c xs of [] \<Rightarrow> [[x]] | w # ws \<Rightarrow> (x # w) # ws))"

text \<open>\<open>x || null\<close> on a string: the empty string is falsy.\<close>

definition or_null :: "string \<Rightarrow> string option" where
  "or_null x = (if x = [] then None else Some x)"

text \<open>\<open>!x\<close> on a \<open>string | undefined\<close>.\<close>

definition falsy :: "string option \<Rightarrow> bool" where
  "falsy x = (case x of None \<Rightarrow> True | Some v \<Rightarrow> v = [])"

subsection \<open>Data\<close>

text \<open>A row of the table \<open>messages\<close>; \<open>created_at\<close> is kept as milliseconds.\<close>

record message =
  msg_id :: string
  sender_id :: string
  receiver_id :: string
  msg_text :: jsstring
  seen :: bool
  created_at :: nat
  file_url :: "string option"
  file_name :: "string option"
  file_type :: "string option"

text \<open>The object \<open>newMessage\<close> handed to \<open>insert\<close>: the file keys exist only after an upload.\<close>

record new_message =
  nm_sender_id :: string
  nm_receiver_id :: string
  nm_text :: jsstring
  nm_file_url :: "string option"
  nm_file_name :: "string option"
  nm_file_type :: "string option"

record js_file =
  f_name :: string
  f_type :: string

record file_data =
  fd_url :: string
  fd_name :: string
  fd_type :: string

record presence =
  profileId :: string
  isTyping :: bool

type_synonym callback = nat

record chat_state =
  messages :: "message list"
  loading :: bool
  typingUsers :: "string set"
  uploading :: bool
  onNewMessageRef :: "callback option"

datatype effect =
    StorageUpload string js_file
  | SelectHistory string string
  | InsertRow new_message
  | UpdateSeen string string
  | SetMessages "message list"
  | ConsoleError string
  | CallbackCall callback message

text \<open>How the promise of an async function settles.\<close>

datatype settled = Resolved | Rejected string

datatype send_arg = Text jsstring | Options "jsstring option" "js_file option"

text \<open>What the world answers during one \<open>sendMessage\<close>.\<close>

record send_env =
  upload_error :: bool
  public_url :: "string \<Rightarrow> string"
  now_upload :: nat
  now_id :: nat
  now_created :: nat
  insert_error :: bool

record send_run =
  state_after :: chat_state
  effects :: "effect list"
  outcome :: settled

datatype 'a response = Response (data: "'a option") (error: "string option")

subsection \<open>Operations\<close>

definition setOnNewMessage :: "callback \<Rightarrow> chat_state \<Rightarrow> chat_state" where
  "setOnNewMessage cb s = s\<lparr>onNewMessageRef := Some cb\<rparr>"

definition in_pair :: "string \<Rightarrow> string \<Rightarrow> message \<Rightarrow> bool" where
  "in_pair me peer m =
     ((sender_id m = me \<and> receiver_id m = peer) \<or> (sender_id m = peer \<and> receiver_id m = me))"

text \<open>The query of \<open>loadMessages\<close> as the table answers it.\<close>

definition select_history :: "string \<Rightarrow> string \<Rightarrow> message list \<Rightarrow> message list" where
  "select_history me peer rows = sort_key created_at (filter (in_pair me peer) rows)"

definition loadMessages ::
  "string option \<Rightarrow> string option \<Rightarrow> message list response \<Rightarrow> chat_state
     \<Rightarrow> chat_state \<times> effect list" where
  "loadMessages currentProfileId selectedUserId resp s =
     (if falsy currentProfileId \<or> falsy selectedUserId then (s, [])
      else
        let s1 = s\<lparr>loading := True\<rparr>;
            s2 = (case (error resp, data resp) of
                    (None, Some rows) \<Rightarrow> s1\<lparr>messages := rows\<rparr>
                  | _ \<Rightarrow> s1)
        in (s2\<lparr>loading := False\<rparr>,
            [SelectHistory (the currentProfileId) (the selectedUserId)]
            @ (case (error resp, data resp) of
                 (None, Some rows) \<Rightarrow> [SetMessages rows]
               | _ \<Rightarrow> [])))"

definition uploadFile ::
  "string option \<Rightarrow> send_env \<Rightarrow> js_file \<Rightarrow> file_data option \<times> effect list" where
  "uploadFile currentProfileId env f =
     (if falsy currentProfileId then (None, [])
      else
        let fileExt = last (split_on CHR ''.'' (f_name f));
            fileName = the currentProfileId @ ''/'' @ decimal (now_upload env) @ ''.'' @ fileExt
        in if upload_error env
           then (None, [StorageUpload fileName f, ConsoleError ''Error uploading file:''])
           else (Some \<lparr>fd_url = public_url env fileName, fd_name = f_name f, fd_type = f_type f\<rparr>,
                 [StorageUpload fileName f]))"

definition arg_text :: "send_arg \<Rightarrow> jsstring" where
  "arg_text a = (case a of Text t \<Rightarrow> t
                 | Options t f \<Rightarrow> (case t of None \<Rightarrow> [] | Some t' \<Rightarrow> t'))"

definition arg_file :: "send_arg \<Rightarrow> js_file option" where
  "arg_file a = (case a of Text t \<Rightarrow> None | Options t f \<Rightarrow> f)"

definition newMessage :: "string \<Rightarrow> string \<Rightarrow> jsstring \<Rightarrow> file_data option \<Rightarrow> new_message" where
  "newMessage me peer txt fileData =
     \<lparr>nm_sender_id = me, nm_receiver_id = peer,
      nm_text = (if trim txt \<noteq> [] then trim txt else []),
      nm_file_url = map_option fd_url fileData,
      nm_file_name = map_option fd_name fileData,
      nm_file_type = map_option fd_type fileData\<rparr>"

definition optimisticMessage ::
  "string \<Rightarrow> string \<Rightarrow> send_env \<Rightarrow> new_message \<Rightarrow> file_data option \<Rightarrow> message" where
  "optimisticMessage me peer env nm fileData =
     \<lparr>msg_id = ''temp-'' @ decimal (now_id env),
      sender_id = me, receiver_id = peer,
      msg_text = nm_text nm,
      seen = False,
      created_at = now_created env,
      file_url = (case fileData of None \<Rightarrow> None | Some d \<Rightarrow> or_null (fd_url d)),
      file_name = (case fileData of None \<Rightarrow> None | Some d \<Rightarrow> or_null (fd_name d)),
      file_type = (case fileData of None \<Rightarrow> None | Some d \<Rightarrow> or_null (fd_type d))\<rparr>"

definition sendMessage ::
  "string option \<Rightarrow> string option \<Rightarrow> send_env \<Rightarrow> send_arg \<Rightarrow> chat_state \<Rightarrow> send_run" where
  "sendMessage currentProfileId selectedUserId env a s =
     (if falsy currentProfileId \<or> falsy selectedUserId
      then \<lparr>state_after = s, effects = [], outcome = Resolved\<rparr>
      else
        let txt = arg_text a; fl = arg_file a in
        if trim txt = [] \<and> fl = None
        then \<lparr>state_after = s, effects = [], outcome = Resolved\<rparr>
        else
          let s1 = s\<lparr>uploading := (fl \<noteq> None)\<rparr>;
              up = (case fl of None \<Rightarrow> (None, [])
                    | Some f \<Rightarrow> uploadFile currentProfileId env f);
              fileData = fst up
          in
          if fl \<noteq> None \<and> fileData = None \<and> trim txt = []
          then \<lparr>state_after = s1\<lparr>uploading := False\<rparr>, effects = snd up, outcome = Resolved\<rparr>
          else
            let me = the currentProfileId; peer = the selectedUserId;
                nm = newMessage me peer txt fileData;
                opt = optimisticMessage me peer env nm fileData;
                s2 = s1\<lparr>messages := messages s1 @ [opt], uploading := False\<rparr>
            in
            if insert_error env
            then
              let s3 = s2\<lparr>messages := filter (\<lambda>m. msg_id m \<noteq> msg_id opt) (messages s2)\<rparr>
              in \<lparr>state_after = s3,
                  effects = snd up @ [SetMessages (messages s2), InsertRow nm,
                                      SetMessages (messages s3),
                                      ConsoleError ''Error sending message:''],
                  outcome = Resolved\<rparr>
            else \<lparr>state_after = s2,
                  effects = snd up @ [SetMessages (messages s2), InsertRow nm],
                  outcome = Resolved\<rparr>)"

definition markAsSeen ::
  "string option \<Rightarrow> string option \<Rightarrow> chat_state \<Rightarrow> chat_state \<times> effect list" where
  "markAsSeen currentProfileId selectedUserId s =
     (if falsy currentProfileId \<or> falsy selectedUserId then (s, [])
      else (s, [UpdateSeen (the selectedUserId) (the currentProfileId)]))"

text \<open>
  The update that \<open>markAsSeen\<close> sends, as the table applies it:
  \<open>update({seen: true}).eq('sender_id', s).eq('receiver_id', r).eq('seen', false)\<close>.
\<close>

definition update_seen :: "string \<Rightarrow> string \<Rightarrow> message list \<Rightarrow> message list" where
  "update_seen s r rows =
     map (\<lambda>m. if sender_id m = s \<and> receiver_id m = r \<and> seen m = False
               then m\<lparr>seen := True\<rparr> else m) rows"

text \<open>The updater that the INSERT handler passes to \<open>setMessages\<close>.\<close>

definition is_temp :: "message \<Rightarrow> bool" where
  "is_temp m = prefix ''temp-'' (msg_id m)"

definition reconcile :: "message \<Rightarrow> message list \<Rightarrow> message list" where
  "reconcile newMsg prev =
     (if list_ex (\<lambda>m. msg_id m = msg_id newMsg) prev then prev
      else filter (\<lambda>m. \<not> is_temp m) prev @ [newMsg])"

text \<open>
  The handler of the realtime INSERT events. It exists only inside the effect that has
  checked both identifiers, so it takes them as plain strings.
\<close>

definition onInsert ::
  "string \<Rightarrow> string \<Rightarrow> message \<Rightarrow> chat_state \<Rightarrow> chat_state \<times> effect list" where
  "onInsert me peer newMsg s =
     (if in_pair me peer newMsg
      then
        let s1 = s\<lparr>messages := reconcile newMsg (messages s)\<rparr>
        in (s1,
            [SetMessages (messages s1)]
            @ (if receiver_id newMsg = me
               then snd (markAsSeen (Some me) (Some peer) s1) else [])
            @ (if sender_id newMsg \<noteq> me
               then (case onNewMessageRef s1 of None \<Rightarrow> [] | Some cb \<Rightarrow> [CallbackCall cb newMsg])
               else []))
      else (s, []))"

text \<open>The handler of the presence \<open>sync\<close> event of the typing channel.\<close>

definition add_typing :: "string \<Rightarrow> presence \<Rightarrow> string set \<Rightarrow> string set" where
  "add_typing me p typing =
     (if isTyping p \<and> profileId p \<noteq> me then insert (profileId p) typing else typing)"

definition onPresenceSync ::
  "string \<Rightarrow> (string \<times> presence list) list option \<Rightarrow> chat_state \<Rightarrow> chat_state" where
  "onPresenceSync me presenceState s =
     (let state = (case presenceState of None \<Rightarrow> [] | Some st \<Rightarrow> st);
          typing = fold (\<lambda>presences t. fold (add_typing me) presences t) (map snd state) {}
      in s\<lparr>typingUsers := typing\<rparr>)"

subsection \<open>Runs of the synchronizer\<close>

text \<open>
  The subscription calls the handler once for each event, in the order of arrival. The
  effect that subscribes returns early when an identifier is missing, so no handler exists
  then.
\<close>

fun deliver ::
  "string \<Rightarrow> string \<Rightarrow> message list \<Rightarrow> chat_state \<Rightarrow> chat_state \<times> effect list" where
  "deliver me peer [] s = (s, [])"
| "deliver me peer (e # es) s =
     (let r1 = onInsert me peer e s; r2 = deliver me peer es (fst r1)
      in (fst r2, snd r1 @ snd r2))"

datatype sync_op = Send send_env send_arg | Inserted message | MarkSeen

definition apply_op :: "string option \<Rightarrow> string option \<Rightarrow> sync_op \<Rightarrow> chat_state \<Rightarrow> chat_state" where
  "apply_op currentProfileId selectedUserId opn s =
     (case opn of
        Send env a \<Rightarrow> state_after (sendMessage currentProfileId selectedUserId env a s)
      | Inserted e \<Rightarrow>
          (if falsy currentProfileId \<or> falsy selectedUserId then s
           else fst (onInsert (the currentProfileId) (the selectedUserId) e s))
      | MarkSeen \<Rightarrow> fst (markAsSeen currentProfileId selectedUserId s))"

text \<open>Reading a list of effects.\<close>

fun inserted_rows :: "effect list \<Rightarrow> new_message list" where
  "inserted_rows [] = []"
| "inserted_rows (InsertRow nm # xs) = nm # inserted_rows xs"
| "inserted_rows (x # xs) = inserted_rows xs"

fun set_messages_calls :: "effect list \<Rightarrow> message list list" where
  "set_messages_calls [] = []"
| "set_messages_calls (SetMessages ms # xs) = ms # set_messages_calls xs"
| "set_messages_calls (x # xs) = set_messages_calls xs"

fun callback_calls :: "effect list \<Rightarrow> (callback \<times> message) list" where
  "callback_calls [] = []"
| "callback_calls (CallbackCall cb m # xs) = (cb, m) # callback_calls xs"
| "callback_calls (x # xs) = callback_calls xs"

subsection \<open>Example data\<close>

definition ex_msg :: "string \<Rightarrow> string \<Rightarrow> string \<Rightarrow> string \<Rightarrow> message" where
  "ex_msg i s r t =
     \<lparr>msg_id = i, sender_id = s, receiver_id = r, msg_text = utf16 t, seen = False,
      created_at = 0, file_url = None, file_name = None, file_type = None\<rparr>"

definition ex_state :: "message list \<Rightarrow> chat_state" where
  "ex_state ms = \<lparr>messages = ms, loading = False, typingUsers = {}, uploading = False,
                  onNewMessageRef = None\<rparr>"

definition ex_env :: "bool \<Rightarrow> bool \<Rightarrow> send_env" where
  "ex_env up_err ins_err =
     \<lparr>upload_error = up_err, public_url = (\<lambda>k. ''https://cdn/'' @ k),
      now_upload = 41, now_id = 42, now_created = 43, insert_error = ins_err\<rparr>"

definition ex_file :: js_file where
  "ex_file = \<lparr>f_name = ''cat.png'', f_type = ''image/png''\<rparr>"

section \<open>Properties\<close>

subsection \<open>Auxiliary facts\<close>

lemma all_dropWhile: "(\<forall>x\<in>set (dropWhile P xs). P x) \<longleftrightarrow> (\<forall>x\<in>set xs. P x)"
  by (induction xs) auto

lemma trim_blank: "trim s = [] \<longleftrightarrow> (\<forall>c\<in>set s. isWhiteSpace c)"
  by (simp add: trim_def all_dropWhile)

lemma trim_last: "trim s \<noteq> [] \<Longrightarrow> \<not> isWhiteSpace (last (trim s))"
  by (simp add: trim_def last_rev hd_dropWhile)

lemma trim_hd:
  assumes "trim s \<noteq> []"
  shows "\<not> isWhiteSpace (hd (trim s))"
proof -
  let ?u = "dropWhile isWhiteSpace s"
  from assms have u: "?u \<noteq> []"
    by (auto simp: trim_def dest: set_dropWhileD)
  then have hd_u: "\<not> isWhiteSpace (hd ?u)"
    by (rule hd_dropWhile)
  from u have "hd ?u \<in> set (rev ?u)"
    by simp
  then have "last (dropWhile isWhiteSpace (rev ?u)) = last (rev ?u)"
    using hd_u by (rule dropWhile_last)
  moreover from assms have "hd (trim s) = last (dropWhile isWhiteSpace (rev ?u))"
    by (simp add: trim_def hd_rev)
  ultimately show ?thesis
    using hd_u u by (simp add: last_rev)
qed

lemma inserted_rows_append: "inserted_rows (xs @ ys) = inserted_rows xs @ inserted_rows ys"
  by (induction xs rule: inserted_rows.induct) auto

lemma set_messages_calls_append:
  "set_messages_calls (xs @ ys) = set_messages_calls xs @ set_messages_calls ys"
  by (induction xs rule: set_messages_calls.induct) auto

lemma callback_calls_append: "callback_calls (xs @ ys) = callback_calls xs @ callback_calls ys"
  by (induction xs rule: callback_calls.induct) auto

lemma reconcile_present: "list_ex (\<lambda>m. msg_id m = msg_id e) (reconcile e prev)"
  by (simp add: reconcile_def list_ex_iff)

lemma reconcile_twice: "reconcile e (reconcile e prev) = reconcile e prev"
  using reconcile_present [of e prev] by (simp add: reconcile_def)

lemma fold_add_typing:
  "fold (add_typing me) ps t
     = t \<union> {profileId p |p. p \<in> set ps \<and> isTyping p \<and> profileId p \<noteq> me}"
  by (induction ps arbitrary: t) (auto simp: add_typing_def)

lemma fold_fold_add_typing:
  "fold (\<lambda>presences t. fold (add_typing me) presences t) pss t
     = t \<union> {profileId p |p. p \<in> set (concat pss) \<and> isTyping p \<and> profileId p \<noteq> me}"
  by (induction pss arbitrary: t) (auto simp: fold_add_typing)

subsection \<open>Reconciliation of inbound events\<close>

text \<open>
  C1, as the handler behaves: an event outside the active pair leaves the timeline as it
  is; so does an event whose identifier the timeline already holds; every other event
  removes all the pending placeholders (the messages whose identifier starts with
  \<open>temp-\<close>), keeps the remaining messages in their order and appends the event's
  message at the end.
\<close>

theorem onInsert_timeline:
  "messages (fst (onInsert me peer e s)) =
     (if \<not> in_pair me peer e then messages s
      else if msg_id e \<in> set (map msg_id (messages s)) then messages s
      else filter (\<lambda>m. \<not> is_temp m) (messages s) @ [e])"
  by (auto simp add: onInsert_def Let_def reconcile_def list_ex_iff image_iff)

theorem onInsert_timeline_witness:
  "messages (fst (onInsert ''A'' ''B'' (ex_msg ''m1'' ''A'' ''B'' ''hi'')
       (ex_state [ex_msg ''m0'' ''B'' ''A'' ''hey'', ex_msg ''temp-42'' ''A'' ''B'' ''hi''])))
     = [ex_msg ''m0'' ''B'' ''A'' ''hey'', ex_msg ''m1'' ''A'' ''B'' ''hi'']"
  using onInsert_timeline [of "''A''" "''B''" "ex_msg ''m1'' ''A'' ''B'' ''hi''"
      "ex_state [ex_msg ''m0'' ''B'' ''A'' ''hey'', ex_msg ''temp-42'' ''A'' ''B'' ''hi'']"]
  by (simp add: in_pair_def ex_msg_def ex_state_def is_temp_def)

text \<open>
  C1 as stated fails: with two sends in flight, one event from the peer removes both
  pending placeholders.
\<close>

theorem onInsert_removes_two_pending:
  "length (filter is_temp
      [ex_msg ''temp-7'' ''A'' ''B'' ''hi'', ex_msg ''temp-8'' ''A'' ''B'' ''there'']) = 2
   \<and> messages (fst (onInsert ''A'' ''B'' (ex_msg ''m1'' ''B'' ''A'' ''yo'')
       (ex_state [ex_msg ''temp-7'' ''A'' ''B'' ''hi'', ex_msg ''temp-8'' ''A'' ''B'' ''there''])))
     = [ex_msg ''m1'' ''B'' ''A'' ''yo'']"
  by (simp add: onInsert_def reconcile_def in_pair_def ex_msg_def ex_state_def is_temp_def
      Let_def)

text \<open>
  C3: handling the same message-created event twice in succession gives the timeline that
  handling it once gives.
\<close>

theorem onInsert_idempotent:
  "messages (fst (onInsert me peer e (fst (onInsert me peer e s))))
     = messages (fst (onInsert me peer e s))"
  by (simp add: onInsert_def Let_def reconcile_twice)

theorem onInsert_idempotent_witness:
  "messages (fst (onInsert ''A'' ''B'' (ex_msg ''m1'' ''B'' ''A'' ''yo'')
       (fst (onInsert ''A'' ''B'' (ex_msg ''m1'' ''B'' ''A'' ''yo'')
               (ex_state [ex_msg ''m0'' ''A'' ''B'' ''hi'']))))) 
     = [ex_msg ''m0'' ''A'' ''B'' ''hi'', ex_msg ''m1'' ''B'' ''A'' ''yo'']"
  using onInsert_idempotent [of "''A''" "''B''" "ex_msg ''m1'' ''B'' ''A'' ''yo''"
      "ex_state [ex_msg ''m0'' ''A'' ''B'' ''hi'']"]
  by (simp add: onInsert_def reconcile_def in_pair_def ex_msg_def ex_state_def is_temp_def
      Let_def)

subsection \<open>Typing\<close>

text \<open>
  C9: after a presence sync the typing set holds exactly the profile identifiers of the
  snapshot's entries that are typing and are not the local user; a missing snapshot gives
  the empty set. Viewed by B, the snapshot \<open>{A: true, B: false}\<close> gives \<open>{A}\<close>.
\<close>

theorem onPresenceSync_typing:
  "typingUsers (onPresenceSync me (Some st) s)
     = {profileId p |p. p \<in> set (concat (map snd st)) \<and> isTyping p \<and> profileId p \<noteq> me}
   \<and> typingUsers (onPresenceSync me None s) = {}"
  by (simp add: onPresenceSync_def Let_def fold_fold_add_typing)

theorem onPresenceSync_typing_witness:
  "typingUsers (onPresenceSync ''B''
      (Some [(''k1'', [\<lparr>profileId = ''A'', isTyping = True\<rparr>]),
             (''k2'', [\<lparr>profileId = ''B'', isTyping = False\<rparr>])]) (ex_state [])) = {''A''}"
  using onPresenceSync_typing [of "''B''"
      "[(''k1'', [\<lparr>profileId = ''A'', isTyping = True\<rparr>]),
        (''k2'', [\<lparr>profileId = ''B'', isTyping = False\<rparr>])]" "ex_state []"]
  by (simp add: onPresenceSync_def add_typing_def)

subsection \<open>Sending\<close>

text \<open>
  C6: a send whose text is empty or consists of whitespace only, and that has no
  attachment, returns the state as it was and has no effect: no pending message, no
  change of the timeline, no insert.
\<close>

theorem sendMessage_blank_noop:
  "\<forall>c\<in>set (arg_text a). isWhiteSpace c \<Longrightarrow> arg_file a = None \<Longrightarrow>
     sendMessage cur sel env a s = \<lparr>state_after = s, effects = [], outcome = Resolved\<rparr>"
  by (simp add: sendMessage_def Let_def trim_blank)

theorem sendMessage_blank_noop_witness:
  "list_all isWhiteSpace (arg_text (Text [0x20, 0x09, 0xA0]))
   \<and> arg_file (Text [0x20, 0x09, 0xA0]) = None
   \<and> sendMessage (Some ''A'') (Some ''B'') (ex_env False False) (Text [0x20, 0x09, 0xA0])
        (ex_state [ex_msg ''m0'' ''B'' ''A'' ''hey''])
      = \<lparr>state_after = ex_state [ex_msg ''m0'' ''B'' ''A'' ''hey''], effects = [],
         outcome = Resolved\<rparr>"
proof -
  have h1: "\<forall>c\<in>set (arg_text (Text [0x20, 0x09, 0xA0])). isWhiteSpace c"
    by (simp add: arg_text_def isWhiteSpace_def)
  have h2: "arg_file (Text [0x20, 0x09, 0xA0]) = None"
    by (simp add: arg_file_def)
  show ?thesis
    using h1 h2 sendMessage_blank_noop [OF h1 h2] by (simp add: list_all_iff)
qed

subsection \<open>The notification callback\<close>

lemma callback_calls_onInsert:
  "callback_calls (snd (onInsert me peer e s)) =
     (if in_pair me peer e \<and> sender_id e \<noteq> me
      then (case onNewMessageRef s of None \<Rightarrow> [] | Some cb \<Rightarrow> [(cb, e)]) else [])"
  by (simp add: onInsert_def Let_def markAsSeen_def callback_calls_append split: option.splits)

lemma onInsert_ref: "onNewMessageRef (fst (onInsert me peer e s)) = onNewMessageRef s"
  by (simp add: onInsert_def Let_def)

lemma deliver_callbacks:
  "callback_calls (snd (deliver me peer es s))
     = (case onNewMessageRef s of None \<Rightarrow> []
        | Some cb \<Rightarrow> map (Pair cb) (filter (\<lambda>e. in_pair me peer e \<and> sender_id e \<noteq> me) es))"
proof (induction es arbitrary: s)
  case Nil
  show ?case by (simp split: option.splits)
next
  case (Cons e es)
  show ?case
    by (simp add: Let_def callback_calls_append callback_calls_onInsert onInsert_ref Cons.IH
        split: option.splits)
qed

lemma onInsert_order:
  assumes "in_pair me peer e" and "sender_id e \<noteq> me" and "onNewMessageRef s = Some cb"
  shows "hd (snd (onInsert me peer e s)) = SetMessages (messages (fst (onInsert me peer e s)))"
    and "last (snd (onInsert me peer e s)) = CallbackCall cb e"
  using assms by (simp_all add: onInsert_def Let_def)

text \<open>
  C4, as the handler behaves: over any sequence of delivered events, the callback that is
  registered is called once for each event (a repeated delivery included) whose pair is
  the active one and whose sender is not the local user, and for no other event; within
  the handling of one event the timeline update comes first and the call last; a second
  registration replaces the first.
\<close>

theorem deliver_callback_calls:
  "callback_calls (snd (deliver me peer es s))
     = (case onNewMessageRef s of None \<Rightarrow> []
        | Some cb \<Rightarrow> map (Pair cb) (filter (\<lambda>e. in_pair me peer e \<and> sender_id e \<noteq> me) es))
   \<and> (in_pair me peer e \<and> sender_id e \<noteq> me \<and> onNewMessageRef s = Some cb \<longrightarrow>
        hd (snd (onInsert me peer e s)) = SetMessages (messages (fst (onInsert me peer e s)))
        \<and> last (snd (onInsert me peer e s)) = CallbackCall cb e)
   \<and> setOnNewMessage c2 (setOnNewMessage c1 s) = setOnNewMessage c2 s
   \<and> onNewMessageRef (setOnNewMessage c2 s) = Some c2"
  by (simp add: deliver_callbacks onInsert_order setOnNewMessage_def)

theorem deliver_callback_calls_witness:
  "callback_calls (snd (deliver ''A'' ''B''
       [ex_msg ''m1'' ''B'' ''A'' ''yo'', ex_msg ''m2'' ''A'' ''B'' ''hi'',
        ex_msg ''m3'' ''C'' ''A'' ''psst'']
       (setOnNewMessage 2 (setOnNewMessage 1 (ex_state [])))))
     = [(2, ex_msg ''m1'' ''B'' ''A'' ''yo'')]
   \<and> last (snd (onInsert ''A'' ''B'' (ex_msg ''m1'' ''B'' ''A'' ''yo'')
        (setOnNewMessage 2 (ex_state [])))) = CallbackCall 2 (ex_msg ''m1'' ''B'' ''A'' ''yo'')"
  using deliver_callback_calls [of "''A''" "''B''"
      "[ex_msg ''m1'' ''B'' ''A'' ''yo'', ex_msg ''m2'' ''A'' ''B'' ''hi'',
        ex_msg ''m3'' ''C'' ''A'' ''psst'']"
      "setOnNewMessage 2 (ex_state [])" "ex_msg ''m1'' ''B'' ''A'' ''yo''" 2 2 1]
  by (simp add: setOnNewMessage_def ex_state_def ex_msg_def in_pair_def)

text \<open>
  C4 as stated fails: the same event delivered twice calls the callback twice, while the
  timeline holds the message once.
\<close>

theorem duplicate_delivery_calls_twice:
  "callback_calls (snd (deliver ''A'' ''B''
       [ex_msg ''m1'' ''B'' ''A'' ''yo'', ex_msg ''m1'' ''B'' ''A'' ''yo'']
       (setOnNewMessage 1 (ex_state []))))
     = [(1, ex_msg ''m1'' ''B'' ''A'' ''yo''), (1, ex_msg ''m1'' ''B'' ''A'' ''yo'')]
   \<and> messages (fst (deliver ''A'' ''B''
       [ex_msg ''m1'' ''B'' ''A'' ''yo'', ex_msg ''m1'' ''B'' ''A'' ''yo'']
       (setOnNewMessage 1 (ex_state []))))
     = [ex_msg ''m1'' ''B'' ''A'' ''yo'']"
  by (simp add: onInsert_def reconcile_def markAsSeen_def falsy_def in_pair_def
      setOnNewMessage_def ex_state_def ex_msg_def is_temp_def Let_def)

subsection \<open>Sending: upload, optimistic message, insert\<close>

lemma uploadFile_effects:
  "\<not> falsy cur \<Longrightarrow>
     hd (snd (uploadFile cur env f))
       = StorageUpload (the cur @ ''/'' @ decimal (now_upload env) @ ''.''
           @ last (split_on CHR ''.'' (f_name f))) f
     \<and> snd (uploadFile cur env f) \<noteq> []
     \<and> inserted_rows (snd (uploadFile cur env f)) = []
     \<and> set_messages_calls (snd (uploadFile cur env f)) = []"
  by (simp add: uploadFile_def Let_def)

lemma uploadFile_fst:
  "\<not> falsy cur \<Longrightarrow>
     fst (uploadFile cur env f)
       = (if upload_error env then None
          else Some \<lparr>fd_url = public_url env (the cur @ ''/'' @ decimal (now_upload env) @ ''.''
                         @ last (split_on CHR ''.'' (f_name f))),
                     fd_name = f_name f, fd_type = f_type f\<rparr>)"
  by (simp add: uploadFile_def Let_def)

text \<open>The run of a send that gets past both early returns.\<close>

lemma sendMessage_proceeds:
  assumes "\<not> falsy cur" and "\<not> falsy sel"
    and "trim (arg_text a) \<noteq> [] \<or> (arg_file a \<noteq> None \<and> \<not> upload_error env)"
  shows "sendMessage cur sel env a s =
     (let up = (case arg_file a of None \<Rightarrow> (None, []) | Some f \<Rightarrow> uploadFile cur env f);
          nm = newMessage (the cur) (the sel) (arg_text a) (fst up);
          opt = optimisticMessage (the cur) (the sel) env nm (fst up);
          appended = messages s @ [opt];
          rolled = filter (\<lambda>m. msg_id m \<noteq> msg_id opt) appended
      in if insert_error env
         then \<lparr>state_after = s\<lparr>messages := rolled, uploading := False\<rparr>,
               effects = snd up @ [SetMessages appended, InsertRow nm, SetMessages rolled,
                                   ConsoleError ''Error sending message:''],
               outcome = Resolved\<rparr>
         else \<lparr>state_after = s\<lparr>messages := appended, uploading := False\<rparr>,
               effects = snd up @ [SetMessages appended, InsertRow nm],
               outcome = Resolved\<rparr>)"
proof (cases "arg_file a")
  case None
  with assms show ?thesis
    by (simp add: sendMessage_def Let_def)
next
  case (Some f)
  with assms show ?thesis
    by (auto simp add: sendMessage_def Let_def uploadFile_fst)
qed

lemma filter_fresh: "k \<notin> set (map f xs) \<Longrightarrow> filter (\<lambda>m. f m \<noteq> k) xs = xs"
  by (induction xs) auto

text \<open>
  C2, as \<open>sendMessage\<close> behaves: when the insert of a send fails, the messages that carry
  the optimistic message's temporary identifier are filtered out of the timeline, so the
  timeline is what it was before the send whenever that identifier was not in it already;
  the error goes to the console, and the promise resolves as it does after a successful
  insert.
\<close>

theorem sendMessage_insert_failure:
  assumes "\<not> falsy cur" and "\<not> falsy sel"
    and "trim (arg_text a) \<noteq> [] \<or> (arg_file a \<noteq> None \<and> \<not> upload_error env)"
    and "insert_error env"
  shows "messages (state_after (sendMessage cur sel env a s))
           = filter (\<lambda>m. msg_id m \<noteq> ''temp-'' @ decimal (now_id env)) (messages s)
       \<and> (''temp-'' @ decimal (now_id env) \<notin> set (map msg_id (messages s)) \<longrightarrow>
            messages (state_after (sendMessage cur sel env a s)) = messages s)
       \<and> last (effects (sendMessage cur sel env a s)) = ConsoleError ''Error sending message:''
       \<and> outcome (sendMessage cur sel env a s) = Resolved"
proof -
  let ?tmp = "''temp-'' @ decimal (now_id env)"
  have run: "messages (state_after (sendMessage cur sel env a s))
               = filter (\<lambda>m. msg_id m \<noteq> ?tmp) (messages s)"
    using assms(4)
    by (simp add: sendMessage_proceeds [OF assms(1-3)] Let_def optimisticMessage_def)
  have fresh: "?tmp \<notin> set (map msg_id (messages s)) \<longrightarrow>
      messages (state_after (sendMessage cur sel env a s)) = messages s"
    unfolding run by (rule impI) (rule filter_fresh)
  have rest: "last (effects (sendMessage cur sel env a s)) = ConsoleError ''Error sending message:''
      \<and> outcome (sendMessage cur sel env a s) = Resolved"
    using assms(4) by (simp add: sendMessage_proceeds [OF assms(1-3)] Let_def)
  from run fresh rest show ?thesis
    by blast
qed

theorem sendMessage_insert_failure_witness:
  "trim (arg_text (Text (utf16 ''hi''))) = utf16 ''hi''
   \<and> insert_error (ex_env False True)
   \<and> messages (state_after (sendMessage (Some ''A'') (Some ''B'') (ex_env False True)
        (Text (utf16 ''hi'')) (ex_state []))) = []
   \<and> effects (sendMessage (Some ''A'') (Some ''B'') (ex_env False True)
        (Text (utf16 ''hi'')) (ex_state []))
      = [SetMessages [(ex_msg ''temp-42'' ''A'' ''B'' ''hi'')\<lparr>created_at := 43\<rparr>],
         InsertRow \<lparr>nm_sender_id = ''A'', nm_receiver_id = ''B'', nm_text = utf16 ''hi'',
                    nm_file_url = None, nm_file_name = None, nm_file_type = None\<rparr>,
         SetMessages [], ConsoleError ''Error sending message:'']"
proof -
  have h1: "\<not> falsy (Some ''A'')" and h2: "\<not> falsy (Some ''B'')"
    by (simp_all add: falsy_def)
  have t: "trim (arg_text (Text (utf16 ''hi''))) = utf16 ''hi''"
    by (simp add: arg_text_def trim_def utf16_def isWhiteSpace_def)
  then have h3: "trim (arg_text (Text (utf16 ''hi''))) \<noteq> []
      \<or> (arg_file (Text (utf16 ''hi'')) \<noteq> None \<and> \<not> upload_error (ex_env False True))"
    by (simp add: utf16_def)
  have h4: "insert_error (ex_env False True)"
    by (simp add: ex_env_def)
  have d: "decimal 42 = ''42''"
    by (simp add: decimal.simps)
  have run: "effects (sendMessage (Some ''A'') (Some ''B'') (ex_env False True)
        (Text (utf16 ''hi'')) (ex_state []))
      = [SetMessages [(ex_msg ''temp-42'' ''A'' ''B'' ''hi'')\<lparr>created_at := 43\<rparr>],
         InsertRow \<lparr>nm_sender_id = ''A'', nm_receiver_id = ''B'', nm_text = utf16 ''hi'',
                    nm_file_url = None, nm_file_name = None, nm_file_type = None\<rparr>,
         SetMessages [], ConsoleError ''Error sending message:'']"
    by (simp add: sendMessage_def Let_def arg_file_def arg_text_def newMessage_def
        optimisticMessage_def falsy_def ex_env_def ex_state_def ex_msg_def d trim_def utf16_def
        isWhiteSpace_def)
  show ?thesis
    using t h4 run sendMessage_insert_failure [OF h1 h2 h3 h4, of "ex_state []"]
    by (simp add: ex_state_def)
qed

text \<open>
  C2 as stated fails: a send whose insert fails settles exactly as a send whose insert
  succeeds; nothing reaches the caller.
\<close>

theorem sendMessage_failure_unreported:
  "insert_error (ex_env False True)
   \<and> outcome (sendMessage (Some ''A'') (Some ''B'') (ex_env False True) (Text (utf16 ''hi''))
        (ex_state [])) = Resolved
   \<and> outcome (sendMessage (Some ''A'') (Some ''B'') (ex_env False False) (Text (utf16 ''hi''))
        (ex_state [])) = Resolved"
  by (simp add: sendMessage_def Let_def ex_env_def)

text \<open>
  C7: a send with an attachment attempts the upload before anything else. When the upload
  fails and the text is blank, nothing is inserted and the timeline is never set; when the
  upload fails and the text is not blank, the inserted row and the optimistic message carry
  the trimmed text and no attachment field.
\<close>

theorem sendMessage_upload_failure:
  assumes "\<not> falsy cur" and "\<not> falsy sel" and "arg_file a = Some f"
  shows "hd (effects (sendMessage cur sel env a s))
           = StorageUpload (the cur @ ''/'' @ decimal (now_upload env) @ ''.''
               @ last (split_on CHR ''.'' (f_name f))) f
       \<and> (upload_error env \<and> trim (arg_text a) = [] \<longrightarrow>
            messages (state_after (sendMessage cur sel env a s)) = messages s
            \<and> inserted_rows (effects (sendMessage cur sel env a s)) = []
            \<and> set_messages_calls (effects (sendMessage cur sel env a s)) = [])
       \<and> (upload_error env \<and> trim (arg_text a) \<noteq> [] \<longrightarrow>
            inserted_rows (effects (sendMessage cur sel env a s))
              = [\<lparr>nm_sender_id = the cur, nm_receiver_id = the sel,
                  nm_text = trim (arg_text a),
                  nm_file_url = None, nm_file_name = None, nm_file_type = None\<rparr>]
            \<and> hd (set_messages_calls (effects (sendMessage cur sel env a s)))
              = messages s @
                [\<lparr>msg_id = ''temp-'' @ decimal (now_id env),
                  sender_id = the cur, receiver_id = the sel,
                  msg_text = trim (arg_text a), seen = False,
                  created_at = now_created env,
                  file_url = None, file_name = None, file_type = None\<rparr>])"
proof -
  note up = uploadFile_effects [OF assms(1), of env f]
  have first: "hd (effects (sendMessage cur sel env a s))
           = StorageUpload (the cur @ ''/'' @ decimal (now_upload env) @ ''.''
               @ last (split_on CHR ''.'' (f_name f))) f"
    using assms up by (simp add: sendMessage_def Let_def)
  have blank: "messages (state_after (sendMessage cur sel env a s)) = messages s
            \<and> inserted_rows (effects (sendMessage cur sel env a s)) = []
            \<and> set_messages_calls (effects (sendMessage cur sel env a s)) = []"
    if "upload_error env" and "trim (arg_text a) = []"
    using assms that up by (simp add: sendMessage_def Let_def uploadFile_fst)
  have text_only: "inserted_rows (effects (sendMessage cur sel env a s))
              = [\<lparr>nm_sender_id = the cur, nm_receiver_id = the sel,
                  nm_text = trim (arg_text a),
                  nm_file_url = None, nm_file_name = None, nm_file_type = None\<rparr>]
            \<and> hd (set_messages_calls (effects (sendMessage cur sel env a s)))
              = messages s @
                [\<lparr>msg_id = ''temp-'' @ decimal (now_id env),
                  sender_id = the cur, receiver_id = the sel,
                  msg_text = trim (arg_text a), seen = False,
                  created_at = now_created env,
                  file_url = None, file_name = None, file_type = None\<rparr>]"
    if "upload_error env" and "trim (arg_text a) \<noteq> []"
  proof -
    from that have p: "trim (arg_text a) \<noteq> [] \<or> (arg_file a \<noteq> None \<and> \<not> upload_error env)"
      by simp
    show ?thesis
      using assms that up
      by (simp add: sendMessage_proceeds [OF assms(1,2) p] Let_def uploadFile_fst
          inserted_rows_append set_messages_calls_append newMessage_def optimisticMessage_def)
  qed
  from first blank text_only show ?thesis
    by blast
qed

theorem sendMessage_upload_failure_witness:
  "arg_file (Options (Some (utf16 '' hi '')) (Some ex_file)) = Some ex_file
   \<and> upload_error (ex_env True False)
   \<and> trim (arg_text (Options (Some (utf16 '' hi '')) (Some ex_file))) = utf16 ''hi''
   \<and> effects (sendMessage (Some ''A'') (Some ''B'') (ex_env True False)
        (Options (Some (utf16 '' hi '')) (Some ex_file)) (ex_state []))
      = [StorageUpload ''A/41.png'' ex_file, ConsoleError ''Error uploading file:'',
         SetMessages [(ex_msg ''temp-42'' ''A'' ''B'' ''hi'')\<lparr>created_at := 43\<rparr>],
         InsertRow \<lparr>nm_sender_id = ''A'', nm_receiver_id = ''B'', nm_text = utf16 ''hi'',
                    nm_file_url = None, nm_file_name = None, nm_file_type = None\<rparr>]
   \<and> effects (sendMessage (Some ''A'') (Some ''B'') (ex_env True False)
        (Options None (Some ex_file)) (ex_state []))
      = [StorageUpload ''A/41.png'' ex_file, ConsoleError ''Error uploading file:'']"
proof -
  have h1: "\<not> falsy (Some ''A'')" and h2: "\<not> falsy (Some ''B'')"
    by (simp_all add: falsy_def)
  have h3: "arg_file (Options (Some (utf16 '' hi '')) (Some ex_file)) = Some ex_file"
    by (simp add: arg_file_def)
  have d: "decimal 42 = ''42''" "decimal 41 = ''41''"
    by (simp_all add: decimal.simps)
  have t: "trim (arg_text (Options (Some (utf16 '' hi '')) (Some ex_file))) = utf16 ''hi''"
    by (simp add: arg_text_def trim_def utf16_def isWhiteSpace_def)
  have run1: "effects (sendMessage (Some ''A'') (Some ''B'') (ex_env True False)
        (Options (Some (utf16 '' hi '')) (Some ex_file)) (ex_state []))
      = [StorageUpload ''A/41.png'' ex_file, ConsoleError ''Error uploading file:'',
         SetMessages [(ex_msg ''temp-42'' ''A'' ''B'' ''hi'')\<lparr>created_at := 43\<rparr>],
         InsertRow \<lparr>nm_sender_id = ''A'', nm_receiver_id = ''B'', nm_text = utf16 ''hi'',
                    nm_file_url = None, nm_file_name = None, nm_file_type = None\<rparr>]"
    by (simp add: sendMessage_def uploadFile_def Let_def arg_file_def arg_text_def
        newMessage_def optimisticMessage_def falsy_def ex_env_def ex_state_def ex_msg_def
        ex_file_def d trim_def utf16_def isWhiteSpace_def)
  have run2: "effects (sendMessage (Some ''A'') (Some ''B'') (ex_env True False)
        (Options None (Some ex_file)) (ex_state []))
      = [StorageUpload ''A/41.png'' ex_file, ConsoleError ''Error uploading file:'']"
    by (simp add: sendMessage_def uploadFile_def Let_def arg_file_def arg_text_def
        falsy_def ex_env_def ex_state_def ex_file_def d trim_def)
  have e: "upload_error (ex_env True False)"
    by (simp add: ex_env_def)
  have h3': "arg_file (Options None (Some ex_file)) = Some ex_file"
    by (simp add: arg_file_def)
  show ?thesis
    using h3 e t run1 run2
      sendMessage_upload_failure [OF h1 h2 h3, of "ex_env True False" "ex_state []"]
      sendMessage_upload_failure [OF h1 h2 h3', of "ex_env True False" "ex_state []"]
    by simp
qed

text \<open>
  C10: in every send that proceeds (both identifiers present, and either a non-blank text
  or an uploaded attachment), exactly one row is inserted; its text and the text of the
  optimistic message appended to the timeline are the trimmed input text, both carry the
  local user as sender and the peer as receiver, and that text neither starts nor ends
  with a whitespace character.
\<close>

theorem sendMessage_text_trimmed:
  assumes "\<not> falsy cur" and "\<not> falsy sel"
    and "trim (arg_text a) \<noteq> [] \<or> (arg_file a \<noteq> None \<and> \<not> upload_error env)"
  shows "map nm_text (inserted_rows (effects (sendMessage cur sel env a s)))
           = [trim (arg_text a)]
       \<and> map nm_sender_id (inserted_rows (effects (sendMessage cur sel env a s))) = [the cur]
       \<and> map nm_receiver_id (inserted_rows (effects (sendMessage cur sel env a s))) = [the sel]
       \<and> butlast (hd (set_messages_calls (effects (sendMessage cur sel env a s)))) = messages s
       \<and> msg_text (last (hd (set_messages_calls (effects (sendMessage cur sel env a s)))))
           = trim (arg_text a)
       \<and> sender_id (last (hd (set_messages_calls (effects (sendMessage cur sel env a s)))))
           = the cur
       \<and> receiver_id (last (hd (set_messages_calls (effects (sendMessage cur sel env a s)))))
           = the sel
       \<and> (trim (arg_text a) = []
           \<or> (\<not> isWhiteSpace (hd (trim (arg_text a)))
               \<and> \<not> isWhiteSpace (last (trim (arg_text a)))))"
proof -
  have up: "inserted_rows (snd (case arg_file a of None \<Rightarrow> (None, [])
                                | Some f \<Rightarrow> uploadFile cur env f)) = []
      \<and> set_messages_calls (snd (case arg_file a of None \<Rightarrow> (None, [])
                                | Some f \<Rightarrow> uploadFile cur env f)) = []"
    using uploadFile_effects [OF assms(1)] by (simp split: option.splits)
  have run: "map nm_text (inserted_rows (effects (sendMessage cur sel env a s)))
           = [trim (arg_text a)]
       \<and> map nm_sender_id (inserted_rows (effects (sendMessage cur sel env a s))) = [the cur]
       \<and> map nm_receiver_id (inserted_rows (effects (sendMessage cur sel env a s))) = [the sel]
       \<and> butlast (hd (set_messages_calls (effects (sendMessage cur sel env a s)))) = messages s
       \<and> msg_text (last (hd (set_messages_calls (effects (sendMessage cur sel env a s)))))
           = trim (arg_text a)
       \<and> sender_id (last (hd (set_messages_calls (effects (sendMessage cur sel env a s)))))
           = the cur
       \<and> receiver_id (last (hd (set_messages_calls (effects (sendMessage cur sel env a s)))))
           = the sel"
    using up
    by (simp add: sendMessage_proceeds [OF assms] Let_def inserted_rows_append
        set_messages_calls_append newMessage_def optimisticMessage_def)
  have pad: "trim (arg_text a) = []
           \<or> (\<not> isWhiteSpace (hd (trim (arg_text a)))
               \<and> \<not> isWhiteSpace (last (trim (arg_text a))))"
    using trim_hd [of "arg_text a"] trim_last [of "arg_text a"] by blast
  from run pad show ?thesis
    by blast
qed

theorem sendMessage_text_trimmed_witness:
  "trim (arg_text (Text (utf16 ''  hi there ''))) = utf16 ''hi there''
   \<and> map nm_text (inserted_rows (effects (sendMessage (Some ''A'') (Some ''B'')
        (ex_env False False) (Text (utf16 ''  hi there ''))
        (ex_state [ex_msg ''m0'' ''B'' ''A'' ''hey'']))))
      = [utf16 ''hi there'']
   \<and> msg_text (last (hd (set_messages_calls (effects (sendMessage (Some ''A'') (Some ''B'')
        (ex_env False False) (Text (utf16 ''  hi there ''))
        (ex_state [ex_msg ''m0'' ''B'' ''A'' ''hey'']))))))
      = utf16 ''hi there''"
proof -
  have h1: "\<not> falsy (Some ''A'')" and h2: "\<not> falsy (Some ''B'')"
    by (simp_all add: falsy_def)
  have t: "trim (arg_text (Text (utf16 ''  hi there ''))) = utf16 ''hi there''"
    by (simp add: arg_text_def trim_def utf16_def isWhiteSpace_def)
  then have h3: "trim (arg_text (Text (utf16 ''  hi there ''))) \<noteq> []
      \<or> (arg_file (Text (utf16 ''  hi there '')) \<noteq> None
          \<and> \<not> upload_error (ex_env False False))"
    by (simp add: utf16_def)
  show ?thesis
    using t sendMessage_text_trimmed [OF h1 h2 h3, of "ex_state [ex_msg ''m0'' ''B'' ''A'' ''hey'']"]
    by simp
qed

subsection \<open>The seen flag\<close>

lemma sendMessage_messages:
  "messages (state_after (sendMessage cur sel env a s)) = messages s
   \<or> (\<exists>opt. msg_id opt = ''temp-'' @ decimal (now_id env) \<and> \<not> seen opt
        \<and> (messages (state_after (sendMessage cur sel env a s)) = messages s @ [opt]
           \<or> messages (state_after (sendMessage cur sel env a s))
                = filter (\<lambda>m. msg_id m \<noteq> msg_id opt) (messages s)))"
proof (cases "\<not> falsy cur \<and> \<not> falsy sel
    \<and> (trim (arg_text a) \<noteq> [] \<or> (arg_file a \<noteq> None \<and> \<not> upload_error env))")
  case True
  then have p: "\<not> falsy cur" "\<not> falsy sel"
    "trim (arg_text a) \<noteq> [] \<or> (arg_file a \<noteq> None \<and> \<not> upload_error env)"
    by simp_all
  define up where "up = (case arg_file a of None \<Rightarrow> (None, [])
                         | Some f \<Rightarrow> uploadFile cur env f)"
  define opt where "opt = optimisticMessage (the cur) (the sel) env
      (newMessage (the cur) (the sel) (arg_text a) (fst up)) (fst up)"
  have id: "msg_id opt = ''temp-'' @ decimal (now_id env)" and unseen: "\<not> seen opt"
    by (simp_all add: opt_def optimisticMessage_def)
  have "messages (state_after (sendMessage cur sel env a s)) = messages s @ [opt]
      \<or> messages (state_after (sendMessage cur sel env a s))
           = filter (\<lambda>m. msg_id m \<noteq> msg_id opt) (messages s)"
    by (simp add: sendMessage_proceeds [OF p] Let_def opt_def up_def)
  with id unseen show ?thesis
    by blast
next
  case False
  then have "messages (state_after (sendMessage cur sel env a s)) = messages s"
    by (cases "arg_file a") (auto simp add: sendMessage_def Let_def uploadFile_fst)
  then show ?thesis ..
qed

lemma onInsert_messages:
  "messages (fst (onInsert me peer e s)) = messages s
   \<or> (msg_id e \<notin> set (map msg_id (messages s))
       \<and> messages (fst (onInsert me peer e s)) = filter (\<lambda>m. \<not> is_temp m) (messages s) @ [e])"
  by (auto simp add: onInsert_def Let_def reconcile_def list_ex_iff image_iff)

lemma markAsSeen_state: "fst (markAsSeen cur sel s) = s"
  by (simp add: markAsSeen_def)

lemma sendMessage_keeps:
  assumes "m \<in> set (messages s)"
  shows "m \<in> set (messages (state_after (sendMessage cur sel env a s)))
       \<or> msg_id m \<notin> set (map msg_id (messages (state_after (sendMessage cur sel env a s))))"
  using assms sendMessage_messages [of cur sel env a s] by auto

lemma onInsert_keeps:
  assumes "m \<in> set (messages s)"
  shows "m \<in> set (messages (fst (onInsert me peer e s)))
       \<or> msg_id m \<notin> set (map msg_id (messages (fst (onInsert me peer e s))))"
proof (cases "messages (fst (onInsert me peer e s)) = messages s")
  case True
  with assms show ?thesis by simp
next
  case False
  with onInsert_messages [of me peer e s]
  have fresh: "msg_id e \<notin> set (map msg_id (messages s))"
    and new: "messages (fst (onInsert me peer e s))
                = filter (\<lambda>m. \<not> is_temp m) (messages s) @ [e]"
    by blast+
  show ?thesis
  proof (cases "is_temp m")
    case False
    with assms new show ?thesis by simp
  next
    case True
    from assms fresh have "msg_id m \<noteq> msg_id e"
      by (force simp: image_iff)
    moreover have "msg_id m \<noteq> msg_id x" if "\<not> is_temp x" for x
      using True that by (auto simp: is_temp_def)
    ultimately have "msg_id m \<notin> set (map msg_id (messages (fst (onInsert me peer e s))))"
      unfolding new by auto
    then show ?thesis ..
  qed
qed

lemma apply_op_keeps:
  assumes "m \<in> set (messages s)"
  shows "m \<in> set (messages (apply_op cur sel opn s))
       \<or> msg_id m \<notin> set (map msg_id (messages (apply_op cur sel opn s)))"
proof (cases opn)
  case (Send env a)
  with sendMessage_keeps [OF assms, of cur sel env a] show ?thesis
    by (simp add: apply_op_def)
next
  case (Inserted e)
  with assms onInsert_keeps [OF assms, of "the cur" "the sel" e] show ?thesis
    by (simp add: apply_op_def)
next
  case MarkSeen
  with assms show ?thesis
    by (simp add: apply_op_def markAsSeen_state)
qed

lemma apply_op_new:
  assumes "m' \<in> set (messages (apply_op cur sel opn s))"
  shows "m' \<in> set (messages s)
       \<or> (case opn of
            Send env a \<Rightarrow> msg_id m' = ''temp-'' @ decimal (now_id env) \<and> \<not> seen m'
          | Inserted e \<Rightarrow> m' = e
          | MarkSeen \<Rightarrow> False)"
proof (cases opn)
  case (Send env a)
  with assms sendMessage_messages [of cur sel env a s] show ?thesis
    by (auto simp add: apply_op_def)
next
  case (Inserted e)
  with assms onInsert_messages [of "the cur" "the sel" e s] show ?thesis
    by (auto simp add: apply_op_def split: if_splits)
next
  case MarkSeen
  with assms show ?thesis
    by (simp add: apply_op_def markAsSeen_state)
qed

lemma update_seen_nth:
  assumes "i < length rows"
  shows "(seen (rows ! i) \<longrightarrow> seen (update_seen p me rows ! i))
       \<and> (update_seen p me rows ! i \<noteq> rows ! i \<longrightarrow>
            sender_id (rows ! i) = p \<and> receiver_id (rows ! i) = me \<and> \<not> seen (rows ! i)
            \<and> update_seen p me rows ! i = (rows ! i)\<lparr>seen := True\<rparr>)"
  using assms by (simp add: update_seen_def)

text \<open>
  C5: no operation of the synchronizer (send, handling of a message-created event,
  seen-marking) turns a seen flag from true to false. In the timeline, a message that is
  seen either stays as it is or its identifier leaves the timeline, and a message the
  operation brings in is the unseen optimistic message of that send or the event's own
  message; seen-marking does not touch the timeline. In the table, the update that
  seen-marking sends keeps every row in place, keeps every seen row seen, and changes a
  row only by setting seen from false to true, and only a row sent by the peer to the
  local user.
\<close>

theorem seen_monotonic:
  "(m \<in> set (messages s) \<and> seen m \<longrightarrow>
       m \<in> set (messages (apply_op cur sel opn s))
       \<or> msg_id m \<notin> set (map msg_id (messages (apply_op cur sel opn s))))
   \<and> (m' \<in> set (messages (apply_op cur sel opn s)) \<longrightarrow>
       m' \<in> set (messages s)
       \<or> (case opn of
            Send env a \<Rightarrow> msg_id m' = ''temp-'' @ decimal (now_id env) \<and> \<not> seen m'
          | Inserted e \<Rightarrow> m' = e
          | MarkSeen \<Rightarrow> False))
   \<and> apply_op cur sel MarkSeen s = s
   \<and> (\<not> falsy cur \<and> \<not> falsy sel \<longrightarrow>
        snd (markAsSeen cur sel s) = [UpdateSeen (the sel) (the cur)])
   \<and> length (update_seen p me rows) = length rows
   \<and> (i < length rows \<longrightarrow>
        (seen (rows ! i) \<longrightarrow> seen (update_seen p me rows ! i))
        \<and> (update_seen p me rows ! i \<noteq> rows ! i \<longrightarrow>
             sender_id (rows ! i) = p \<and> receiver_id (rows ! i) = me \<and> \<not> seen (rows ! i)
             \<and> update_seen p me rows ! i = (rows ! i)\<lparr>seen := True\<rparr>))"
proof -
  have a: "apply_op cur sel MarkSeen s = s"
    by (simp add: apply_op_def markAsSeen_state)
  have b: "\<not> falsy cur \<and> \<not> falsy sel \<longrightarrow>
        snd (markAsSeen cur sel s) = [UpdateSeen (the sel) (the cur)]"
    by (simp add: markAsSeen_def)
  have c: "length (update_seen p me rows) = length rows"
    by (simp add: update_seen_def)
  from a b c apply_op_keeps [of m s cur sel opn] apply_op_new [of m' cur sel opn s]
    update_seen_nth [of i rows p me]
  show ?thesis
    by blast
qed

theorem seen_monotonic_witness:
  "(ex_msg ''m0'' ''B'' ''A'' ''hey'')\<lparr>seen := True\<rparr>
      \<in> set (messages (ex_state [(ex_msg ''m0'' ''B'' ''A'' ''hey'')\<lparr>seen := True\<rparr>]))
   \<and> seen ((ex_msg ''m0'' ''B'' ''A'' ''hey'')\<lparr>seen := True\<rparr>)
   \<and> messages (apply_op (Some ''A'') (Some ''B'') (Inserted (ex_msg ''m1'' ''B'' ''A'' ''yo''))
        (ex_state [(ex_msg ''m0'' ''B'' ''A'' ''hey'')\<lparr>seen := True\<rparr>]))
      = [(ex_msg ''m0'' ''B'' ''A'' ''hey'')\<lparr>seen := True\<rparr>, ex_msg ''m1'' ''B'' ''A'' ''yo'']
   \<and> update_seen ''B'' ''A''
        [ex_msg ''m1'' ''B'' ''A'' ''yo'', (ex_msg ''m2'' ''A'' ''B'' ''hi'')\<lparr>seen := True\<rparr>,
         ex_msg ''m3'' ''A'' ''B'' ''ok'']
      = [(ex_msg ''m1'' ''B'' ''A'' ''yo'')\<lparr>seen := True\<rparr>,
         (ex_msg ''m2'' ''A'' ''B'' ''hi'')\<lparr>seen := True\<rparr>, ex_msg ''m3'' ''A'' ''B'' ''ok'']"
  using seen_monotonic [of "(ex_msg ''m0'' ''B'' ''A'' ''hey'')\<lparr>seen := True\<rparr>"
      "ex_state [(ex_msg ''m0'' ''B'' ''A'' ''hey'')\<lparr>seen := True\<rparr>]"
      "Some ''A''" "Some ''B''" "Inserted (ex_msg ''m1'' ''B'' ''A'' ''yo'')"
      "ex_msg ''m1'' ''B'' ''A'' ''yo''" "''B''" "''A''"
      "[ex_msg ''m1'' ''B'' ''A'' ''yo'', (ex_msg ''m2'' ''A'' ''B'' ''hi'')\<lparr>seen := True\<rparr>,
         ex_msg ''m3'' ''A'' ''B'' ''ok'']" 0]
  by (simp add: apply_op_def onInsert_def reconcile_def in_pair_def falsy_def update_seen_def
      is_temp_def ex_state_def ex_msg_def Let_def)

subsection \<open>Loading the history\<close>

text \<open>
  C8: a load whose fetch fails (an error, or no data) leaves the timeline as it was and
  ends with the loading flag cleared; a load that succeeds replaces the timeline by the
  fetched rows and clears the flag; and the rows the query yields are the messages of the
  pair, ascending by creation time.
\<close>

theorem loadMessages_result:
  assumes "\<not> falsy cur" and "\<not> falsy sel"
  shows "(error resp \<noteq> None \<or> data resp = None \<longrightarrow>
            messages (fst (loadMessages cur sel resp s)) = messages s
            \<and> \<not> loading (fst (loadMessages cur sel resp s)))
       \<and> (error resp = None \<and> data resp = Some rows \<longrightarrow>
            messages (fst (loadMessages cur sel resp s)) = rows
            \<and> \<not> loading (fst (loadMessages cur sel resp s)))
       \<and> sorted (map created_at (messages (fst (loadMessages cur sel
            (Response (Some (select_history (the cur) (the sel) table)) None) s))))
       \<and> mset (messages (fst (loadMessages cur sel
            (Response (Some (select_history (the cur) (the sel) table)) None) s)))
           = filter_mset (in_pair (the cur) (the sel)) (mset table)"
  using assms
  by (auto simp add: loadMessages_def Let_def select_history_def split: option.splits)

theorem loadMessages_result_witness:
  "messages (fst (loadMessages (Some ''A'') (Some ''B'')
       (Response None (Some ''network'')) (ex_state [ex_msg ''m0'' ''B'' ''A'' ''hey''])))
     = [ex_msg ''m0'' ''B'' ''A'' ''hey'']
   \<and> messages (fst (loadMessages (Some ''A'') (Some ''B'')
       (Response (Some (select_history ''A'' ''B''
          [(ex_msg ''m2'' ''A'' ''B'' ''hi'')\<lparr>created_at := 9\<rparr>,
           (ex_msg ''m3'' ''C'' ''A'' ''psst'')\<lparr>created_at := 5\<rparr>,
           (ex_msg ''m1'' ''B'' ''A'' ''yo'')\<lparr>created_at := 3\<rparr>])) None)
       (ex_state [ex_msg ''m0'' ''B'' ''A'' ''hey''])))
     = [(ex_msg ''m1'' ''B'' ''A'' ''yo'')\<lparr>created_at := 3\<rparr>,
        (ex_msg ''m2'' ''A'' ''B'' ''hi'')\<lparr>created_at := 9\<rparr>]"
proof -
  have h1: "\<not> falsy (Some ''A'')" and h2: "\<not> falsy (Some ''B'')"
    by (simp_all add: falsy_def)
  show ?thesis
    using loadMessages_result [OF h1 h2, of "Response None (Some ''network'')"
        "ex_state [ex_msg ''m0'' ''B'' ''A'' ''hey'']"]
      loadMessages_result [OF h1 h2,
        of "Response (Some (select_history ''A'' ''B''
          [(ex_msg ''m2'' ''A'' ''B'' ''hi'')\<lparr>created_at := 9\<rparr>,
           (ex_msg ''m3'' ''C'' ''A'' ''psst'')\<lparr>created_at := 5\<rparr>,
           (ex_msg ''m1'' ''B'' ''A'' ''yo'')\<lparr>created_at := 3\<rparr>])) None"
        "ex_state [ex_msg ''m0'' ''B'' ''A'' ''hey'']"
        "select_history ''A'' ''B''
          [(ex_msg ''m2'' ''A'' ''B'' ''hi'')\<lparr>created_at := 9\<rparr>,
           (ex_msg ''m3'' ''C'' ''A'' ''psst'')\<lparr>created_at := 5\<rparr>,
           (ex_msg ''m1'' ''B'' ''A'' ''yo'')\<lparr>created_at := 3\<rparr>]"]
    by (simp add: loadMessages_def select_history_def in_pair_def falsy_def ex_state_def
        ex_msg_def Let_def)
qed

end
